theory Spec2Isabelle
  imports Complex_Main "HOL-Library.Multiset"
begin

section \<open>Values, rows and numbers\<close>

text \<open>
  The matcher of \<^verbatim>\<open>src/utils/matcher.ts\<close> receives two arrays of rows typed \<^verbatim>\<open>any[]\<close>.
  A row is an object read by field name; a field holds text, a number, or nothing
  (\<^verbatim>\<open>undefined\<close>/\<^verbatim>\<open>null\<close>). Strings are modelled over the code units 0..255 (Isabelle's
  \<^typ>\<open>char\<close>); numbers are exact rationals, so \<^verbatim>\<open>Math.round\<close> and the comparisons
  below are the mathematical ones.
\<close>

datatype val = Absent | Text string | Numeric rat

type_synonym row = "(string \<times> val) list"

datatype error = TypeError

text \<open>\<^verbatim>\<open>row[name]\<close>: a missing property reads as \<^verbatim>\<open>undefined\<close>.\<close>

definition field :: "row \<Rightarrow> string \<Rightarrow> val" where
  "field r name = (case map_of r name of None \<Rightarrow> Absent | Some v \<Rightarrow> v)"

text \<open>JavaScript truthiness of a field value: \<^verbatim>\<open>undefined\<close>, \<^verbatim>\<open>null\<close>, \<^verbatim>\<open>''\<close> and \<^verbatim>\<open>0\<close> are falsy.\<close>

fun truthy :: "val \<Rightarrow> bool" where
  "truthy Absent = False"
| "truthy (Text s) = (s \<noteq> [])"
| "truthy (Numeric n) = (n \<noteq> 0)"

text \<open>\<^verbatim>\<open>v || ''\<close>\<close>

definition orEmpty :: "val \<Rightarrow> val" where
  "orEmpty v = (if truthy v then v else Text [])"

text \<open>\<^verbatim>\<open>Math.round\<close>: the nearest integer, a tie going up.\<close>

definition mathRound :: "rat \<Rightarrow> int" where
  "mathRound x = \<lfloor>x + 1 / 2\<rfloor>"

section \<open>normalizeString\<close>

text \<open>
  \<^verbatim>\<open>\s\<close> (and the characters \<^verbatim>\<open>trim\<close> removes) among the code units 0..255: TAB, LF, VT, FF,
  CR, SPACE and NBSP. \<^verbatim>\<open>\w\<close> is \<^verbatim>\<open>[A-Za-z0-9_]\<close>. \<^verbatim>\<open>toLowerCase\<close> moves A..Z and the
  Latin-1 capitals 0xC0..0xDE (but 0xD7, the multiplication sign) up by 32.
\<close>

definition isSpace :: "char \<Rightarrow> bool" where
  "isSpace c = (let n = (of_char c :: nat) in (9 \<le> n \<and> n \<le> 13) \<or> n = 32 \<or> n = 160)"

definition isWord :: "char \<Rightarrow> bool" where
  "isWord c = (let n = (of_char c :: nat) in
     (48 \<le> n \<and> n \<le> 57) \<or> (65 \<le> n \<and> n \<le> 90) \<or> n = 95 \<or> (97 \<le> n \<and> n \<le> 122))"

definition toLowerChar :: "char \<Rightarrow> char" where
  "toLowerChar c = (let n = (of_char c :: nat) in
     if (65 \<le> n \<and> n \<le> 90) \<or> (192 \<le> n \<and> n \<le> 222 \<and> n \<noteq> 215)
     then char_of (n + 32) else c)"

definition toLowerCase :: "string \<Rightarrow> string" where
  "toLowerCase s = map toLowerChar s"

definition trim :: "string \<Rightarrow> string" where
  "trim s = rev (dropWhile isSpace (rev (dropWhile isSpace s)))"

text \<open>\<^verbatim>\<open>.replace(/\s+/g, ' ')\<close>: every maximal run of whitespace becomes one space.\<close>

function collapseSpaces :: "string \<Rightarrow> string" where
  "collapseSpaces [] = []"
| "collapseSpaces (c # cs) =
     (if isSpace c then CHR '' '' # collapseSpaces (dropWhile isSpace cs)
      else c # collapseSpaces cs)"
  by pat_completeness auto
termination
  by (relation "measure length") (auto simp: length_dropWhile_le less_Suc_eq_le)

text \<open>\<^verbatim>\<open>.replace(/[^\w\s]/g, '')\<close>\<close>

definition removeNonWord :: "string \<Rightarrow> string" where
  "removeNonWord s = filter (\<lambda>c. isWord c \<or> isSpace c) s"

text \<open>
  \<^verbatim>\<open>normalizeString\<close> on a string, as its signature declares the argument: the guard
  \<^verbatim>\<open>if (!str) return ''\<close>, then the chain lower-case, trim, collapse, remove.
\<close>

definition normalizeString :: "string \<Rightarrow> string" where
  "normalizeString str =
     (if str = [] then []
      else removeNonWord (collapseSpaces (trim (toLowerCase str))))"

text \<open>
  The same call on whatever value a row holds: a falsy value returns the empty string at
  the guard; a non-zero number has no \<^verbatim>\<open>toLowerCase\<close> method, and the call throws a
  \<^verbatim>\<open>TypeError\<close>.
\<close>

fun normalizeValue :: "val \<Rightarrow> error + string" where
  "normalizeValue Absent = Inr []"
| "normalizeValue (Text s) = Inr (normalizeString s)"
| "normalizeValue (Numeric n) = (if n = 0 then Inr [] else Inl TypeError)"

section \<open>The similarity scorer\<close>

fun bigrams :: "string \<Rightarrow> (char \<times> char) list" where
  "bigrams (a # b # cs) = (a, b) # bigrams (b # cs)"
| "bigrams cs = []"

text \<open>
  The size of the intersection of two bigram lists read as multisets: an element
  occurring \<open>k\<close> times in the first and \<open>j\<close> times in the second counts \<open>min k j\<close> times.
\<close>

fun intersectionSize :: "'a list \<Rightarrow> 'a list \<Rightarrow> nat" where
  "intersectionSize [] ys = 0"
| "intersectionSize (x # xs) ys =
     (if x \<in> set ys then Suc (intersectionSize xs (remove1 x ys))
      else intersectionSize xs ys)"

text \<open>
  Modelled from the spec: \<^verbatim>\<open>compareTwoStrings\<close> is imported from the package
  \<^verbatim>\<open>string-similarity\<close>, whose code is not part of the sources. The spec (section 4.3)
  gives it as Dice's coefficient over the bigram multisets of its two arguments,
  \<open>2 * |A \<inter> B| / (|A| + |B|)\<close>, and for an argument shorter than two characters as 1 when
  the two arguments are equal and 0 otherwise.
\<close>

definition compareTwoStrings :: "string \<Rightarrow> string \<Rightarrow> rat" where
  "compareTwoStrings first second =
     (if length first < 2 \<or> length second < 2 then (if first = second then 1 else 0)
      else 2 * of_nat (intersectionSize (bigrams first) (bigrams second))
           / of_nat (length (bigrams first) + length (bigrams second)))"

text \<open>
  \<^verbatim>\<open>calculateSimilarity\<close>: both descriptions are normalized (either call can throw on a
  number); an empty normal form scores 0; otherwise the percentage with two decimals,
  \<^verbatim>\<open>Math.round(similarity * 10000) / 100\<close>.
\<close>

definition calculateSimilarity :: "val \<Rightarrow> val \<Rightarrow> error + rat" where
  "calculateSimilarity desc1 desc2 =
     (case normalizeValue desc1 of
        Inl e \<Rightarrow> Inl e
      | Inr normalized1 \<Rightarrow>
          (case normalizeValue desc2 of
             Inl e \<Rightarrow> Inl e
           | Inr normalized2 \<Rightarrow>
               if normalized1 = [] \<or> normalized2 = [] then Inr 0
               else Inr (of_int (mathRound (compareTwoStrings normalized1 normalized2 * 10000))
                         / 100)))"

section \<open>matchDescriptions: the direct sweep\<close>

record match_result =
  itemMasterRow :: row
  genConsumableRow :: row
  matchPercentage :: rat
  itemMasterDescription :: val
  genConsumableDescription :: val

text \<open>The inner loop over the right rows, for one left row whose description is truthy.\<close>

fun scanGenRows :: "rat \<Rightarrow> row \<Rightarrow> val \<Rightarrow> row list \<Rightarrow> error + match_result list" where
  "scanGenRows minThreshold itemRow itemDesc [] = Inr []"
| "scanGenRows minThreshold itemRow itemDesc (genRow # rest) =
     (let genDesc = orEmpty (field genRow ''LONG DESCRIPTION'') in
      if \<not> truthy genDesc then scanGenRows minThreshold itemRow itemDesc rest
      else
        (case calculateSimilarity itemDesc genDesc of
           Inl e \<Rightarrow> Inl e
         | Inr p \<Rightarrow>
             (case scanGenRows minThreshold itemRow itemDesc rest of
                Inl e \<Rightarrow> Inl e
              | Inr ms \<Rightarrow>
                  Inr ((if p \<ge> minThreshold
                        then [\<lparr>itemMasterRow = itemRow, genConsumableRow = genRow,
                               matchPercentage = p, itemMasterDescription = itemDesc,
                               genConsumableDescription = genDesc\<rparr>]
                        else []) @ ms))))"

text \<open>The outer loop over the left rows.\<close>

fun scanItemRows :: "rat \<Rightarrow> row list \<Rightarrow> row list \<Rightarrow> error + match_result list" where
  "scanItemRows minThreshold [] genConsumableData = Inr []"
| "scanItemRows minThreshold (itemRow # rest) genConsumableData =
     (let itemDesc = orEmpty (field itemRow ''Description'') in
      if \<not> truthy itemDesc then scanItemRows minThreshold rest genConsumableData
      else
        (case scanGenRows minThreshold itemRow itemDesc genConsumableData of
           Inl e \<Rightarrow> Inl e
         | Inr ms \<Rightarrow>
             (case scanItemRows minThreshold rest genConsumableData of
                Inl e \<Rightarrow> Inl e
              | Inr ms' \<Rightarrow> Inr (ms @ ms'))))"

text \<open>
  \<^verbatim>\<open>.sort((a, b) => b.matchPercentage - a.matchPercentage).slice(0, maxResults)\<close>: a stable
  sort, descending by percentage, then the first \<open>maxResults\<close> elements. \<open>maxResults\<close> is
  a count.
\<close>

definition rankMatches :: "nat \<Rightarrow> match_result list \<Rightarrow> match_result list" where
  "rankMatches maxResults ms = take maxResults (sort_key (\<lambda>m. - matchPercentage m) ms)"

definition matchDescriptions ::
    "row list \<Rightarrow> row list \<Rightarrow> rat \<Rightarrow> nat \<Rightarrow> error + match_result list" where
  "matchDescriptions itemMasterData genConsumableData minThreshold maxResults =
     (case scanItemRows minThreshold itemMasterData genConsumableData of
        Inl e \<Rightarrow> Inl e
      | Inr ms \<Rightarrow> Inr (rankMatches maxResults ms))"

section \<open>Tokens and the candidate filter\<close>

text \<open>
  \<^verbatim>\<open>.split(/\s+/)\<close>: the pieces between maximal runs of whitespace; a run at either end
  leaves an empty piece there, and the empty string splits into one empty piece.
\<close>

function splitSpaces :: "string \<Rightarrow> string list" where
  "splitSpaces s =
     (case dropWhile (\<lambda>c. \<not> isSpace c) s of
        [] \<Rightarrow> [s]
      | c # rest \<Rightarrow> takeWhile (\<lambda>c. \<not> isSpace c) s # splitSpaces (dropWhile isSpace rest))"
  by pat_completeness auto
termination
proof (relation "measure length")
  show "wf (measure length)" by simp
next
  fix s :: string and c rest
  assume d: "dropWhile (\<lambda>c. \<not> isSpace c) s = c # rest"
  have "length (dropWhile isSpace rest) \<le> length rest"
    by (rule length_dropWhile_le)
  moreover have "length (c # rest) \<le> length s"
    unfolding d [symmetric] by (rule length_dropWhile_le)
  ultimately show "(dropWhile isSpace rest, s) \<in> measure length"
    by simp
qed

declare splitSpaces.simps [simp del]

text \<open>
  \<^verbatim>\<open>extractTokens\<close>: the pieces of the normal form with at least three characters, as a
  \<^verbatim>\<open>Set\<close> (a list without duplicates; only its size and membership are read).
\<close>

definition extractTokens :: "val \<Rightarrow> error + string list" where
  "extractTokens text =
     (case normalizeValue text of
        Inl e \<Rightarrow> Inl e
      | Inr normalized \<Rightarrow> Inr (remdups (filter (\<lambda>t. length t \<ge> 3) (splitSpaces normalized))))"

definition calculateTokenOverlap :: "string list \<Rightarrow> string list \<Rightarrow> rat" where
  "calculateTokenOverlap tokens1 tokens2 =
     (if length tokens1 = 0 \<or> length tokens2 = 0 then 0
      else
        let overlap = length (filter (\<lambda>t. t \<in> set tokens2) tokens1);
            union = (of_nat (length tokens1) + of_nat (length tokens2) - of_nat overlap :: rat)
        in if union > 0 then of_nat overlap / union else 0)"

record entry =
  row :: row
  desc :: val
  normalizedDesc :: string
  tokens :: "string list"
  index :: nat

text \<open>The \<^verbatim>\<open>map\<close> callback of the pre-processing, for the row at position \<open>idx\<close>.\<close>

definition toEntry :: "string \<Rightarrow> row \<Rightarrow> nat \<Rightarrow> error + entry" where
  "toEntry name r idx =
     (let d = orEmpty (field r name) in
      case normalizeValue d of
        Inl e \<Rightarrow> Inl e
      | Inr normalized \<Rightarrow>
          (case extractTokens d of
             Inl e \<Rightarrow> Inl e
           | Inr ts \<Rightarrow>
               Inr \<lparr>row = r, desc = d, normalizedDesc = normalized, tokens = ts, index = idx\<rparr>))"

fun mapEntries :: "string \<Rightarrow> nat \<Rightarrow> row list \<Rightarrow> error + entry list" where
  "mapEntries name idx [] = Inr []"
| "mapEntries name idx (r # rest) =
     (case toEntry name r idx of
        Inl e \<Rightarrow> Inl e
      | Inr x \<Rightarrow>
          (case mapEntries name (Suc idx) rest of
             Inl e \<Rightarrow> Inl e
           | Inr xs \<Rightarrow> Inr (x # xs)))"

text \<open>\<^verbatim>\<open>.map(...).filter(item => item.normalizedDesc.length > 0 && item.tokens.size > 0)\<close>\<close>

definition preprocess :: "string \<Rightarrow> row list \<Rightarrow> error + entry list" where
  "preprocess name rows =
     (case mapEntries name 0 rows of
        Inl e \<Rightarrow> Inl e
      | Inr xs \<Rightarrow>
          Inr (filter (\<lambda>item. length (normalizedDesc item) > 0 \<and> length (tokens item) > 0) xs))"

text \<open>
  The candidate filter: the length ratio, then the token overlap. With two empty normal
  forms the ratio is \<^verbatim>\<open>0/0\<close>, that is \<^verbatim>\<open>NaN\<close>, and \<^verbatim>\<open>NaN < 0.3\<close> is false, so only a defined
  ratio can reject.
\<close>

definition passesFilter :: "entry \<Rightarrow> entry \<Rightarrow> bool" where
  "passesFilter itemData genData =
     (let shorter = min (length (normalizedDesc itemData)) (length (normalizedDesc genData));
          longer = max (length (normalizedDesc itemData)) (length (normalizedDesc genData))
      in if longer \<noteq> 0 \<and> (of_nat shorter / of_nat longer :: rat) < 3 / 10 then False
         else calculateTokenOverlap (tokens itemData) (tokens genData) > 15 / 100)"

section \<open>matchDescriptionsAsync: the chunked, filtered sweep\<close>

text \<open>
  The loop over the candidates of one left entry. The threshold is compared with the
  unrounded percentage; the recorded percentage is rounded; a collected match of at
  least 98 ends the loop (\<^verbatim>\<open>break\<close>).
\<close>

fun scoreCandidates :: "rat \<Rightarrow> entry \<Rightarrow> entry list \<Rightarrow> match_result list" where
  "scoreCandidates minThreshold itemData [] = []"
| "scoreCandidates minThreshold itemData (genData # rest) =
     (let mp = compareTwoStrings (normalizedDesc itemData) (normalizedDesc genData) * 100 in
      if mp \<ge> minThreshold
      then \<lparr>itemMasterRow = row itemData, genConsumableRow = row genData,
             matchPercentage = of_int (mathRound (mp * 100)) / 100,
             itemMasterDescription = desc itemData,
             genConsumableDescription = desc genData\<rparr>
           # (if mp \<ge> 98 then [] else scoreCandidates minThreshold itemData rest)
      else scoreCandidates minThreshold itemData rest)"

text \<open>The body of the loop over the left entries of a chunk.\<close>

definition processItem :: "rat \<Rightarrow> entry list \<Rightarrow> entry \<Rightarrow> match_result list" where
  "processItem minThreshold normalizedGenData itemData =
     scoreCandidates minThreshold itemData (filter (passesFilter itemData) normalizedGenData)"

definition chunkSize :: nat where
  "chunkSize = 200"

text \<open>
  The value handed to \<^verbatim>\<open>onProgress\<close>:
  \<^verbatim>\<open>Math.round((currentIndex / normalizedItemData.length) * 100)\<close>. With no left entry the
  quotient is \<^verbatim>\<open>0/0\<close>, and \<^verbatim>\<open>Math.round(NaN)\<close> is \<^verbatim>\<open>NaN\<close>.
\<close>

datatype progress = NaN | Percent int

definition progressOf :: "nat \<Rightarrow> nat \<Rightarrow> progress" where
  "progressOf currentIndex len =
     (if len = 0 then NaN
      else Percent (mathRound (of_nat currentIndex / of_nat len * 100)))"

text \<open>
  \<^verbatim>\<open>processChunk\<close>, with the captured variables \<^verbatim>\<open>currentIndex\<close> and \<^verbatim>\<open>matches\<close> as
  arguments. One call processes the entries from \<open>currentIndex\<close> up to \<open>endIndex\<close>,
  reports the progress, and then either resolves (the global early exit, or all entries
  done) or schedules itself again. The result is the list of progress values reported,
  one per call, and the \<^verbatim>\<open>matches\<close> array at the call that resolves; both resolving
  branches sort and slice it in the same way (\<open>rankMatches\<close>, applied by the entry point).
\<close>

function processChunk ::
    "rat \<Rightarrow> nat \<Rightarrow> entry list \<Rightarrow> entry list \<Rightarrow> nat \<Rightarrow> match_result list
     \<Rightarrow> progress list \<times> match_result list" where
  "processChunk minThreshold maxResults normalizedItemData normalizedGenData currentIndex matches =
     (let endIndex = min (currentIndex + chunkSize) (length normalizedItemData);
          matches' = matches @ concat (map (processItem minThreshold normalizedGenData)
                       (take (endIndex - currentIndex) (drop currentIndex normalizedItemData)));
          p = progressOf endIndex (length normalizedItemData)
      in if length matches' \<ge> maxResults * 3 \<and> minThreshold \<ge> 70 then ([p], matches')
         else if endIndex < length normalizedItemData
         then (case processChunk minThreshold maxResults normalizedItemData normalizedGenData
                      endIndex matches' of
                 (ps, final) \<Rightarrow> (p # ps, final))
         else ([p], matches'))"
  by pat_completeness auto
termination
  by (relation "measure (\<lambda>(t, m, items, gens, i, ms). length items - i)")
     (auto simp: chunkSize_def)

declare processChunk.simps [simp del]

text \<open>
  The body of the promise executor up to the call that resolves: pre-process both sides
  (a throw here rejects the promise), then run the chunks from index 0 with no matches.
  The result is the list of progress values a supplied sink receives, and the \<^verbatim>\<open>matches\<close>
  array as collected when the promise resolves.
\<close>

definition sweepAsync ::
    "row list \<Rightarrow> row list \<Rightarrow> rat \<Rightarrow> nat \<Rightarrow> error + (progress list \<times> match_result list)" where
  "sweepAsync itemMasterData genConsumableData minThreshold maxResults =
     (case preprocess ''Description'' itemMasterData of
        Inl e \<Rightarrow> Inl e
      | Inr normalizedItemData \<Rightarrow>
          (case preprocess ''LONG DESCRIPTION'' genConsumableData of
             Inl e \<Rightarrow> Inl e
           | Inr normalizedGenData \<Rightarrow>
               Inr (processChunk minThreshold maxResults normalizedItemData normalizedGenData
                      0 [])))"

text \<open>The entry point resolves with the collected matches, sorted and sliced.\<close>

definition matchDescriptionsAsync ::
    "row list \<Rightarrow> row list \<Rightarrow> rat \<Rightarrow> nat \<Rightarrow> error + (progress list \<times> match_result list)" where
  "matchDescriptionsAsync itemMasterData genConsumableData minThreshold maxResults =
     (case sweepAsync itemMasterData genConsumableData minThreshold maxResults of
        Inl e \<Rightarrow> Inl e
      | Inr (ps, collected) \<Rightarrow> Inr (ps, rankMatches maxResults collected))"

section \<open>Predicates on description values\<close>

text \<open>
  A description value that \<^verbatim>\<open>normalizeString\<close> accepts: text, nothing, or the number 0
  (which is falsy and returns at the guard).
\<close>

fun readable :: "val \<Rightarrow> bool" where
  "readable (Numeric n) = (n = 0)"
| "readable v = True"

text \<open>
  A description that is missing, empty, made of whitespace only, or whose normal form is
  empty (punctuation only): the value read with \<^verbatim>\<open>|| ''\<close> normalizes to the empty string.
\<close>

definition blank :: "val \<Rightarrow> bool" where
  "blank v = (normalizeValue (orEmpty v) = Inr [])"

section \<open>Names for the parts of one chunk step\<close>

text \<open>
  The three values one call of \<open>processChunk\<close> computes before it decides how to go on:
  \<open>endIndex\<close>, the \<^verbatim>\<open>matches\<close> array after the chunk, and whether the call resolves the
  promise (global early exit, or no entry left) instead of scheduling the next chunk.
\<close>

definition endIndexOf :: "entry list \<Rightarrow> nat \<Rightarrow> nat" where
  "endIndexOf items i = min (i + chunkSize) (length items)"

definition chunkMatches ::
    "rat \<Rightarrow> entry list \<Rightarrow> entry list \<Rightarrow> nat \<Rightarrow> match_result list \<Rightarrow> match_result list" where
  "chunkMatches t gens items i ms0 =
     ms0 @ concat (map (processItem t gens) (take (endIndexOf items i - i) (drop i items)))"

definition resolves ::
    "rat \<Rightarrow> nat \<Rightarrow> entry list \<Rightarrow> entry list \<Rightarrow> nat \<Rightarrow> match_result list \<Rightarrow> bool" where
  "resolves t k items gens i ms0 =
     ((length (chunkMatches t gens items i ms0) \<ge> k * 3 \<and> t \<ge> 70) \<or>
      \<not> endIndexOf items i < length items)"


text \<open>
  Dice's coefficient in the words of the spec (section 4.3): with \<open>A\<close> and \<open>B\<close> the
  multisets of the bigrams of the two strings, \<open>2 * |A \<inter> B| / (|A| + |B|)\<close>, where a bigram
  occurring \<open>k\<close> times in one string and \<open>j\<close> times in the other occurs \<open>min k j\<close> times in the
  intersection.
\<close>

definition diceCoefficient :: "string \<Rightarrow> string \<Rightarrow> rat" where
  "diceCoefficient a b =
     2 * of_nat (size (mset (bigrams a) \<inter># mset (bigrams b)))
       / of_nat (size (mset (bigrams a)) + size (mset (bigrams b)))"

section \<open>Properties of normalizeString\<close>

text \<open>
  C2 (normalization is idempotent). The chain removes punctuation after it has trimmed
  and collapsed the whitespace, so the removal can leave two spaces side by side: the
  input \<^verbatim>\<open>a , b\<close> normalizes to \<^verbatim>\<open>a  b\<close> (two spaces), and normalizing that again gives
  \<^verbatim>\<open>a b\<close>. The function is not idempotent at this input.
\<close>

theorem normalizeString_not_idempotent:
  "normalizeString ''a , b'' = ''a  b'' \<and>
   normalizeString (normalizeString ''a , b'') = ''a b'' \<and>
   normalizeString (normalizeString ''a , b'') \<noteq> normalizeString ''a , b''"
  by code_simp

section \<open>Facts about values and the direct sweep\<close>

lemma truthy_orEmpty [simp]: "truthy (orEmpty v) = truthy v"
  by (simp add: orEmpty_def)

lemma normalizeValue_falsy: "\<not> truthy v \<Longrightarrow> normalizeValue v = Inr []"
  by (cases v) (simp_all add: normalizeString_def)

lemma normalizeValue_orEmpty: "normalizeValue (orEmpty v) = normalizeValue v"
  by (cases v) (simp_all add: orEmpty_def normalizeString_def)

lemma readable_normalizeValue: "readable v \<Longrightarrow> \<exists>n. normalizeValue v = Inr n"
  by (cases v) simp_all

lemma normalizeValue_nonempty_truthy: "normalizeValue v = Inr n \<Longrightarrow> n \<noteq> [] \<Longrightarrow> truthy v"
  using normalizeValue_falsy [of v] by auto

lemma calculateSimilarity_ok:
  assumes "normalizeValue d1 = Inr n1" and "normalizeValue d2 = Inr n2"
  shows "calculateSimilarity d1 d2 =
           Inr (if n1 = [] \<or> n2 = [] then 0
                else of_int (mathRound (compareTwoStrings n1 n2 * 10000)) / 100)"
  using assms by (simp add: calculateSimilarity_def)

lemma scanGenRows_total:
  assumes "normalizeValue idesc = Inr n"
      and "\<forall>g\<in>set gens. \<exists>n'. normalizeValue (field g ''LONG DESCRIPTION'') = Inr n'"
  shows "\<exists>ms. scanGenRows t ir idesc gens = Inr ms"
  using assms(2)
proof (induction gens)
  case Nil
  then show ?case by simp
next
  case (Cons g gens)
  then obtain ms where ms: "scanGenRows t ir idesc gens = Inr ms" by auto
  from Cons.prems obtain n' where "normalizeValue (orEmpty (field g ''LONG DESCRIPTION'')) = Inr n'"
    by (auto simp: normalizeValue_orEmpty)
  with assms(1) obtain p where "calculateSimilarity idesc (orEmpty (field g ''LONG DESCRIPTION'')) = Inr p"
    by (simp add: calculateSimilarity_ok)
  with ms show ?case by (simp add: Let_def)
qed

lemma scanItemRows_total:
  assumes "\<forall>ir\<in>set l. \<exists>n. normalizeValue (field ir ''Description'') = Inr n"
      and "\<forall>g\<in>set gens. \<exists>n'. normalizeValue (field g ''LONG DESCRIPTION'') = Inr n'"
  shows "\<exists>ms. scanItemRows t l gens = Inr ms"
  using assms(1)
proof (induction l)
  case Nil
  then show ?case by simp
next
  case (Cons ir l)
  then obtain ms where ms: "scanItemRows t l gens = Inr ms" by auto
  from Cons.prems obtain n where "normalizeValue (orEmpty (field ir ''Description'')) = Inr n"
    by (auto simp: normalizeValue_orEmpty)
  from scanGenRows_total [OF this assms(2)]
  obtain ms' where "scanGenRows t ir (orEmpty (field ir ''Description'')) gens = Inr ms'"
    by blast
  with ms show ?case by (simp add: Let_def)
qed

lemma scanGenRows_mem:
  "scanGenRows t ir idesc gens = Inr ms \<Longrightarrow>
   (m \<in> set ms) =
     (\<exists>g\<in>set gens. \<exists>p. truthy (field g ''LONG DESCRIPTION'') \<and>
        calculateSimilarity idesc (orEmpty (field g ''LONG DESCRIPTION'')) = Inr p \<and> t \<le> p \<and>
        m = \<lparr>itemMasterRow = ir, genConsumableRow = g, matchPercentage = p,
              itemMasterDescription = idesc,
              genConsumableDescription = orEmpty (field g ''LONG DESCRIPTION'')\<rparr>)"
proof (induction gens arbitrary: ms)
  case Nil
  then show ?case by simp
next
  case (Cons g gens)
  show ?case
  proof (cases "truthy (field g ''LONG DESCRIPTION'')")
    case False
    with Cons show ?thesis by (auto simp: Let_def)
  next
    case True
    with Cons.prems obtain p ms' where
      p: "calculateSimilarity idesc (orEmpty (field g ''LONG DESCRIPTION'')) = Inr p" and
      ms': "scanGenRows t ir idesc gens = Inr ms'" and
      ms: "ms = (if p \<ge> t
                 then [\<lparr>itemMasterRow = ir, genConsumableRow = g, matchPercentage = p,
                        itemMasterDescription = idesc,
                        genConsumableDescription = orEmpty (field g ''LONG DESCRIPTION'')\<rparr>]
                 else []) @ ms'"
      by (auto simp: Let_def split: sum.splits)
    from Cons.IH [OF ms'] True p show ?thesis
      unfolding ms by auto
  qed
qed

lemma scanItemRows_mem:
  "scanItemRows t l gens = Inr ms \<Longrightarrow>
   (m \<in> set ms) =
     (\<exists>ir\<in>set l. \<exists>g\<in>set gens. \<exists>p.
        truthy (field ir ''Description'') \<and> truthy (field g ''LONG DESCRIPTION'') \<and>
        calculateSimilarity (orEmpty (field ir ''Description''))
          (orEmpty (field g ''LONG DESCRIPTION'')) = Inr p \<and> t \<le> p \<and>
        m = \<lparr>itemMasterRow = ir, genConsumableRow = g, matchPercentage = p,
              itemMasterDescription = orEmpty (field ir ''Description''),
              genConsumableDescription = orEmpty (field g ''LONG DESCRIPTION'')\<rparr>)"
proof (induction l arbitrary: ms)
  case Nil
  then show ?case by simp
next
  case (Cons ir l)
  show ?case
  proof (cases "truthy (field ir ''Description'')")
    case False
    with Cons show ?thesis by (auto simp: Let_def)
  next
    case True
    with Cons.prems obtain ms1 ms2 where
      ms1: "scanGenRows t ir (orEmpty (field ir ''Description'')) gens = Inr ms1" and
      ms2: "scanItemRows t l gens = Inr ms2" and
      ms: "ms = ms1 @ ms2"
      by (auto simp: Let_def split: sum.splits)
    from Cons.IH [OF ms2] scanGenRows_mem [OF ms1, of m] True show ?thesis
      unfolding ms by auto
  qed
qed

section \<open>Facts about pre-processing and the chunked sweep\<close>

lemma toEntry_props:
  assumes "toEntry name r idx = Inr e"
  shows "row e = r \<and> desc e = orEmpty (field r name) \<and>
         normalizeValue (field r name) = Inr (normalizedDesc e) \<and>
         extractTokens (desc e) = Inr (tokens e)"
  using assms
  by (auto simp: toEntry_def Let_def normalizeValue_orEmpty split: sum.splits)

lemma mapEntries_mem:
  "mapEntries name idx rows = Inr es \<Longrightarrow> e \<in> set es \<Longrightarrow>
   \<exists>r\<in>set rows. \<exists>i. toEntry name r i = Inr e"
proof (induction rows arbitrary: idx es)
  case Nil
  then show ?case by simp
next
  case (Cons r rows)
  from Cons.prems(1) obtain x xs where
    x: "toEntry name r idx = Inr x" and xs: "mapEntries name (Suc idx) rows = Inr xs" and
    es: "es = x # xs"
    by (auto split: sum.splits)
  from Cons.prems(2) es consider "e = x" | "e \<in> set xs" by auto
  then show ?case
  proof cases
    case 1
    with x show ?thesis by auto
  next
    case 2
    from Cons.IH [OF xs 2] show ?thesis by auto
  qed
qed


lemma mapEntries_total:
  "\<forall>r\<in>set rows. \<exists>n. normalizeValue (field r name) = Inr n \<Longrightarrow>
   \<exists>es. mapEntries name idx rows = Inr es"
proof (induction rows arbitrary: idx)
  case Nil
  then show ?case by simp
next
  case (Cons r rows)
  then obtain es where es: "mapEntries name (Suc idx) rows = Inr es" by fastforce
  from Cons.prems obtain n where "normalizeValue (field r name) = Inr n" by auto
  then have "\<exists>x. toEntry name r idx = Inr x"
    by (simp add: toEntry_def Let_def extractTokens_def normalizeValue_orEmpty)
  with es show ?case by auto
qed

lemma preprocess_mem:
  assumes "preprocess name rows = Inr es" and "e \<in> set es"
  shows "row e \<in> set rows \<and> desc e = orEmpty (field (row e) name) \<and>
         normalizeValue (field (row e) name) = Inr (normalizedDesc e) \<and>
         normalizedDesc e \<noteq> [] \<and> tokens e \<noteq> []"
proof -
  from assms(1) obtain xs where xs: "mapEntries name 0 rows = Inr xs" and
    es: "es = filter (\<lambda>item. length (normalizedDesc item) > 0 \<and> length (tokens item) > 0) xs"
    by (auto simp: preprocess_def split: sum.splits)
  from assms(2) es have "e \<in> set xs" and ne: "normalizedDesc e \<noteq> []" "tokens e \<noteq> []"
    by auto
  from mapEntries_mem [OF xs this(1)] obtain r i where
    "r \<in> set rows" and "toEntry name r i = Inr e"
    by blast
  with toEntry_props [of name r i e] ne show ?thesis by auto
qed


lemma preprocess_total:
  "\<forall>r\<in>set rows. \<exists>n. normalizeValue (field r name) = Inr n \<Longrightarrow>
   \<exists>es. preprocess name rows = Inr es"
  using mapEntries_total [of rows name 0] by (auto simp: preprocess_def)

lemma scoreCandidates_mem:
  "m \<in> set (scoreCandidates t item cs) \<Longrightarrow>
   \<exists>g\<in>set cs. t \<le> compareTwoStrings (normalizedDesc item) (normalizedDesc g) * 100 \<and>
      m = \<lparr>itemMasterRow = row item, genConsumableRow = row g,
            matchPercentage =
              of_int (mathRound (compareTwoStrings (normalizedDesc item) (normalizedDesc g)
                                   * 100 * 100)) / 100,
            itemMasterDescription = desc item, genConsumableDescription = desc g\<rparr>"
  by (induction cs) (auto simp: Let_def split: if_splits)

lemma processItem_mem:
  "m \<in> set (processItem t gens item) \<Longrightarrow>
   \<exists>g\<in>set gens. passesFilter item g \<and>
      t \<le> compareTwoStrings (normalizedDesc item) (normalizedDesc g) * 100 \<and>
      m = \<lparr>itemMasterRow = row item, genConsumableRow = row g,
            matchPercentage =
              of_int (mathRound (compareTwoStrings (normalizedDesc item) (normalizedDesc g)
                                   * 100 * 100)) / 100,
            itemMasterDescription = desc item, genConsumableDescription = desc g\<rparr>"
  unfolding processItem_def by (drule scoreCandidates_mem) auto


lemma processChunk_cases:
  "processChunk t k items gens i ms0 =
     (if resolves t k items gens i ms0
      then ([progressOf (endIndexOf items i) (length items)], chunkMatches t gens items i ms0)
      else (progressOf (endIndexOf items i) (length items)
              # fst (processChunk t k items gens (endIndexOf items i) (chunkMatches t gens items i ms0)),
            snd (processChunk t k items gens (endIndexOf items i) (chunkMatches t gens items i ms0))))"
  unfolding resolves_def chunkMatches_def endIndexOf_def
  by (subst processChunk.simps) (simp add: Let_def split: prod.splits)

lemma endIndexOf_gt: "i < length items \<Longrightarrow> i < endIndexOf items i"
  by (simp add: endIndexOf_def chunkSize_def)


lemma not_resolves_lt: "\<not> resolves t k items gens i ms0 \<Longrightarrow> i < length items"
  by (auto simp: resolves_def endIndexOf_def)

lemma processChunk_induct2 [case_names step]:
  assumes "\<And>i ms0. (\<not> resolves t k items gens i ms0 \<Longrightarrow>
              P (endIndexOf items i) (chunkMatches t gens items i ms0)) \<Longrightarrow> P i ms0"
  shows "P i ms0"
proof -
  have "P i ms0" if "length items - i = n" for n i ms0
    using that
  proof (induction n arbitrary: i ms0 rule: less_induct)
    case (less n i ms0)
    show ?case
    proof (rule assms)
      assume "\<not> resolves t k items gens i ms0"
      then have "i < length items" by (rule not_resolves_lt)
      then have "length items - endIndexOf items i < n"
        using endIndexOf_gt [of i items] less.prems by simp
      from less.IH [OF this refl]
      show "P (endIndexOf items i) (chunkMatches t gens items i ms0)" .
    qed
  qed
  then show ?thesis by simp
qed

lemma chunkMatches_mem:
  "m \<in> set (chunkMatches t gens items i ms0) \<Longrightarrow>
   m \<in> set ms0 \<or> (\<exists>item\<in>set items. m \<in> set (processItem t gens item))"
  unfolding chunkMatches_def by (auto dest: in_set_takeD in_set_dropD)

lemma processChunk_mem:
  "m \<in> set (snd (processChunk t k items gens i ms0)) \<Longrightarrow>
   m \<in> set ms0 \<or> (\<exists>item\<in>set items. m \<in> set (processItem t gens item))"
proof (induction i ms0 rule: processChunk_induct2 [where t = t and k = k and items = items and gens = gens])
  case (step i ms0)
  show ?case
  proof (cases "resolves t k items gens i ms0")
    case True
    with step.prems have "m \<in> set (chunkMatches t gens items i ms0)"
      by (subst (asm) processChunk_cases) simp
    then show ?thesis by (rule chunkMatches_mem)
  next
    case False
    with step.prems have
      "m \<in> set (snd (processChunk t k items gens (endIndexOf items i) (chunkMatches t gens items i ms0)))"
      by (subst (asm) processChunk_cases) simp
    from step.IH [OF False this] show ?thesis
      by (auto dest: chunkMatches_mem)
  qed
qed

lemma round_pct_eq:
  "(of_int (mathRound (c * 100 * 100)) / 100 :: rat) = of_int (mathRound (c * 10000)) / 100"
  by (simp add: mult.assoc)


lemma entry_pair_scored:
  assumes "preprocess ''Description'' l = Inr items"
      and "preprocess ''LONG DESCRIPTION'' r = Inr gens"
      and "item \<in> set items" and "g \<in> set gens"
  shows "row item \<in> set l \<and> row g \<in> set r \<and>
         desc item = orEmpty (field (row item) ''Description'') \<and>
         desc g = orEmpty (field (row g) ''LONG DESCRIPTION'') \<and>
         truthy (field (row item) ''Description'') \<and>
         truthy (field (row g) ''LONG DESCRIPTION'') \<and>
         normalizeValue (field (row item) ''Description'') = Inr (normalizedDesc item) \<and>
         normalizeValue (field (row g) ''LONG DESCRIPTION'') = Inr (normalizedDesc g) \<and>
         normalizedDesc item \<noteq> [] \<and> normalizedDesc g \<noteq> [] \<and>
         calculateSimilarity (desc item) (desc g) =
           Inr (of_int (mathRound (compareTwoStrings (normalizedDesc item) (normalizedDesc g)
                                     * 10000)) / 100)"
proof -
  note i = preprocess_mem [OF assms(1) assms(3)]
  note g = preprocess_mem [OF assms(2) assms(4)]
  from i have ti: "truthy (field (row item) ''Description'')"
    by (auto intro: normalizeValue_nonempty_truthy)
  from g have tg: "truthy (field (row g) ''LONG DESCRIPTION'')"
    by (auto intro: normalizeValue_nonempty_truthy)
  from i g have "calculateSimilarity (desc item) (desc g) =
           Inr (of_int (mathRound (compareTwoStrings (normalizedDesc item) (normalizedDesc g)
                                     * 10000)) / 100)"
    by (simp add: calculateSimilarity_ok [of _ "normalizedDesc item" _ "normalizedDesc g"]
          normalizeValue_orEmpty)
  with i g ti tg show ?thesis by simp
qed

lemma sweepAsync_mem:
  assumes "sweepAsync l r t k = Inr (ps, ms)" and "m \<in> set ms"
  shows "\<exists>items gens item g.
           preprocess ''Description'' l = Inr items \<and>
           preprocess ''LONG DESCRIPTION'' r = Inr gens \<and>
           item \<in> set items \<and> g \<in> set gens \<and> passesFilter item g \<and>
           t \<le> compareTwoStrings (normalizedDesc item) (normalizedDesc g) * 100 \<and>
           m = \<lparr>itemMasterRow = row item, genConsumableRow = row g,
                 matchPercentage =
                   of_int (mathRound (compareTwoStrings (normalizedDesc item) (normalizedDesc g)
                                        * 10000)) / 100,
                 itemMasterDescription = desc item, genConsumableDescription = desc g\<rparr>"
proof -
  from assms(1) obtain items gens where
    items: "preprocess ''Description'' l = Inr items" and
    gens: "preprocess ''LONG DESCRIPTION'' r = Inr gens" and
    run: "processChunk t k items gens 0 [] = (ps, ms)"
    by (auto simp: sweepAsync_def split: sum.splits)
  from run assms(2) have "m \<in> set (snd (processChunk t k items gens 0 []))" by simp
  from processChunk_mem [OF this] obtain item where
    item: "item \<in> set items" and "m \<in> set (processItem t gens item)"
    by auto
  from processItem_mem [OF this(2)] obtain g where
    "g \<in> set gens" "passesFilter item g"
    "t \<le> compareTwoStrings (normalizedDesc item) (normalizedDesc g) * 100"
    "m = \<lparr>itemMasterRow = row item, genConsumableRow = row g,
          matchPercentage =
            of_int (mathRound (compareTwoStrings (normalizedDesc item) (normalizedDesc g)
                                 * 100 * 100)) / 100,
          itemMasterDescription = desc item, genConsumableDescription = desc g\<rparr>"
    by blast
  with items gens item show ?thesis
    unfolding round_pct_eq by blast
qed

section \<open>The ranker\<close>

lemma rankMatches_sorted:
  "sorted_wrt (\<lambda>a b. matchPercentage a \<ge> matchPercentage b) (rankMatches k ms)"
proof -
  have "sorted (map (\<lambda>m. - matchPercentage m) (sort_key (\<lambda>m. - matchPercentage m) ms))"
    by (rule sorted_sort_key)
  then have "sorted_wrt (\<lambda>a b. matchPercentage a \<ge> matchPercentage b)
               (sort_key (\<lambda>m. - matchPercentage m) ms)"
    by (simp add: sorted_map)
  then show ?thesis
    unfolding rankMatches_def by (rule sorted_wrt_take)
qed

lemma rankMatches_length: "length (rankMatches k ms) \<le> k"
  by (simp add: rankMatches_def)

lemma set_rankMatches: "set (rankMatches k ms) \<subseteq> set ms"
  unfolding rankMatches_def
  using set_take_subset [of k "sort_key (\<lambda>m. - matchPercentage m) ms"] by simp

text \<open>
  C9. Whatever either entry point returns is sorted by \<open>matchPercentage\<close>, no element
  below a later one, and has at most \<open>maxResults\<close> elements. For \<open>matchDescriptionsAsync\<close>
  this covers both resolving branches (global early exit and normal completion).
\<close>

theorem ranked_output_sorted_and_capped:
  "(matchDescriptions l r t k = Inr res \<longrightarrow>
      sorted_wrt (\<lambda>a b. matchPercentage a \<ge> matchPercentage b) res \<and> length res \<le> k) \<and>
   (matchDescriptionsAsync l r t k = Inr (ps, res') \<longrightarrow>
      sorted_wrt (\<lambda>a b. matchPercentage a \<ge> matchPercentage b) res' \<and> length res' \<le> k)"
  by (auto simp: matchDescriptions_def matchDescriptionsAsync_def rankMatches_sorted
        rankMatches_length split: sum.splits prod.splits)

theorem ranked_output_sorted_and_capped_witness:
  "matchDescriptions
     [[(''Description'', Text ''abc def'')]]
     [[(''LONG DESCRIPTION'', Text ''abc d f'')], [(''LONG DESCRIPTION'', Text ''abc def'')]] 0 2
   = Inr [\<lparr>itemMasterRow = [(''Description'', Text ''abc def'')],
             genConsumableRow = [(''LONG DESCRIPTION'', Text ''abc def'')],
             matchPercentage = 100, itemMasterDescription = Text ''abc def'',
             genConsumableDescription = Text ''abc def''\<rparr>,
          \<lparr>itemMasterRow = [(''Description'', Text ''abc def'')],
             genConsumableRow = [(''LONG DESCRIPTION'', Text ''abc d f'')],
             matchPercentage = 6667 / 100, itemMasterDescription = Text ''abc def'',
             genConsumableDescription = Text ''abc d f''\<rparr>] \<and>
   matchDescriptionsAsync
     [[(''Description'', Text ''abc def'')]]
     [[(''LONG DESCRIPTION'', Text ''abc d f'')], [(''LONG DESCRIPTION'', Text ''abc def'')]] 0 2
   = Inr ([Percent 100],
          [\<lparr>itemMasterRow = [(''Description'', Text ''abc def'')],
             genConsumableRow = [(''LONG DESCRIPTION'', Text ''abc def'')],
             matchPercentage = 100, itemMasterDescription = Text ''abc def'',
             genConsumableDescription = Text ''abc def''\<rparr>,
           \<lparr>itemMasterRow = [(''Description'', Text ''abc def'')],
             genConsumableRow = [(''LONG DESCRIPTION'', Text ''abc d f'')],
             matchPercentage = 6667 / 100, itemMasterDescription = Text ''abc def'',
             genConsumableDescription = Text ''abc d f''\<rparr>]) \<and>
   sorted_wrt (\<lambda>a b. matchPercentage a \<ge> matchPercentage b)
     [\<lparr>itemMasterRow = [(''Description'', Text ''abc def'')],
         genConsumableRow = [(''LONG DESCRIPTION'', Text ''abc def'')],
         matchPercentage = 100, itemMasterDescription = Text ''abc def'',
         genConsumableDescription = Text ''abc def''\<rparr>,
      \<lparr>itemMasterRow = [(''Description'', Text ''abc def'')],
         genConsumableRow = [(''LONG DESCRIPTION'', Text ''abc d f'')],
         matchPercentage = 6667 / 100, itemMasterDescription = Text ''abc def'',
         genConsumableDescription = Text ''abc d f''\<rparr>]"
  (is "?sync = Inr ?out \<and> ?async = Inr (?ps, ?out) \<and> ?sorted")
proof -
  have sync: "?sync = Inr ?out"
    by code_simp
  have async: "?async = Inr (?ps, ?out)"
    by code_simp
  from ranked_output_sorted_and_capped
         [of "[[(''Description'', Text ''abc def'')]]"
             "[[(''LONG DESCRIPTION'', Text ''abc d f'')], [(''LONG DESCRIPTION'', Text ''abc def'')]]"
             0 2 ?out ?ps ?out]
       sync async
  show ?thesis
    by blast
qed

section \<open>The scheduler with nothing to do\<close>

lemma processChunk_no_items: "processChunk t k [] gens 0 [] = ([NaN], [])"
  by (subst processChunk.simps) (simp add: progressOf_def Let_def)

text \<open>
  C10. When pre-processing leaves no left entry, \<open>processChunk\<close> runs once: the one
  progress value reported is \<^verbatim>\<open>Math.round(0/0 * 100)\<close>, that is \<^verbatim>\<open>NaN\<close>, and the promise
  resolves with the empty list, whatever the threshold and \<open>maxResults\<close> are.
\<close>

theorem no_left_entry_one_chunk_NaN:
  assumes "preprocess ''Description'' l = Inr []"
      and "preprocess ''LONG DESCRIPTION'' r = Inr gens"
  shows "matchDescriptionsAsync l r t k = Inr ([NaN], [])"
  using assms
  by (simp add: matchDescriptionsAsync_def sweepAsync_def processChunk_no_items rankMatches_def)

theorem no_left_entry_one_chunk_NaN_witness:
  "preprocess ''Description'' [[(''Description'', Text ''?!'')], [(''Code'', Numeric 7)]] = Inr [] \<and>
   preprocess ''LONG DESCRIPTION'' [[(''LONG DESCRIPTION'', Text ''cotton gauze'')]]
     = Inr [\<lparr>row = [(''LONG DESCRIPTION'', Text ''cotton gauze'')], desc = Text ''cotton gauze'',
              normalizedDesc = ''cotton gauze'', tokens = [''cotton'', ''gauze''], index = 0\<rparr>] \<and>
   matchDescriptionsAsync [[(''Description'', Text ''?!'')], [(''Code'', Numeric 7)]]
     [[(''LONG DESCRIPTION'', Text ''cotton gauze'')]] 50 10 = Inr ([NaN], [])"
  (is "?l \<and> ?r \<and> ?c")
proof -
  have l: ?l by code_simp
  have r: ?r by code_simp
  from no_left_entry_one_chunk_NaN [OF l r] l r show ?thesis
    by simp
qed

section \<open>The two entry points compared\<close>






section \<open>The per-row early break\<close>




section \<open>The threshold in the chunked sweep\<close>

text \<open>
  C5 at a failing input. With the descriptions \<^verbatim>\<open>abc d e f\<close> and \<^verbatim>\<open>abc gh i jk\<close> the score is
  one third, 33.33... percent. With \<open>minThreshold = 33.333\<close>, \<open>matchDescriptionsAsync\<close>
  compares the unrounded percentage, collects the pair and records 33.33, which is below
  the threshold; \<open>matchDescriptions\<close> compares the rounded percentage and returns nothing.
\<close>

theorem async_records_below_threshold:
  "matchDescriptionsAsync [[(''Description'', Text ''abc d e f'')]]
     [[(''LONG DESCRIPTION'', Text ''abc gh i jk'')]] (33333 / 1000) 1000
   = Inr ([Percent 100],
       [\<lparr>itemMasterRow = [(''Description'', Text ''abc d e f'')],
        genConsumableRow = [(''LONG DESCRIPTION'', Text ''abc gh i jk'')],
        matchPercentage = 3333 / 100, itemMasterDescription = Text ''abc d e f'',
        genConsumableDescription = Text ''abc gh i jk''\<rparr>]) \<and>
   matchPercentage
     (\<lparr>itemMasterRow = [(''Description'', Text ''abc d e f'')],
        genConsumableRow = [(''LONG DESCRIPTION'', Text ''abc gh i jk'')],
        matchPercentage = 3333 / 100, itemMasterDescription = Text ''abc d e f'',
        genConsumableDescription = Text ''abc gh i jk''\<rparr>) < 33333 / 1000 \<and>
   matchDescriptions [[(''Description'', Text ''abc d e f'')]]
     [[(''LONG DESCRIPTION'', Text ''abc gh i jk'')]] (33333 / 1000) 1000 = Inr []"
  (is "?a \<and> ?b \<and> ?c")
proof -
  have a: ?a by code_simp
  have b: ?b by simp
  have c: ?c by code_simp
  from a b c show ?thesis by blast
qed


section \<open>Totality\<close>

text \<open>
  C3, as the code has it. When every row's designated description field holds text or
  nothing (or the number 0, which is falsy), neither entry point throws, whatever the
  other fields of the rows hold and whatever the threshold and \<open>maxResults\<close> are.
\<close>

theorem readable_descriptions_never_raise:
  assumes "\<forall>ir\<in>set l. readable (field ir ''Description'')"
      and "\<forall>g\<in>set r. readable (field g ''LONG DESCRIPTION'')"
  shows "(\<exists>res. matchDescriptions l r t k = Inr res) \<and>
         (\<exists>out. matchDescriptionsAsync l r t k = Inr out)"
proof -
  from assms(1) have l: "\<forall>ir\<in>set l. \<exists>n. normalizeValue (field ir ''Description'') = Inr n"
    by (auto dest: readable_normalizeValue)
  from assms(2) have r: "\<forall>g\<in>set r. \<exists>n. normalizeValue (field g ''LONG DESCRIPTION'') = Inr n"
    by (auto dest: readable_normalizeValue)
  from scanItemRows_total [OF l r] obtain ms where "scanItemRows t l r = Inr ms"
    by blast
  then have sync: "\<exists>res. matchDescriptions l r t k = Inr res"
    by (simp add: matchDescriptions_def)
  from preprocess_total [OF l] obtain items where items: "preprocess ''Description'' l = Inr items"
    by blast
  from preprocess_total [OF r] obtain gens where gens: "preprocess ''LONG DESCRIPTION'' r = Inr gens"
    by blast
  from items gens have async: "\<exists>out. matchDescriptionsAsync l r t k = Inr out"
    by (simp add: matchDescriptionsAsync_def sweepAsync_def split: prod.splits)
  from sync async show ?thesis ..
qed

theorem readable_descriptions_never_raise_witness:
  "list_all (\<lambda>ir. readable (field ir ''Description''))
     [[(''Item Code'', Numeric 7), (''Description'', Text ''Cotton Gauze'')],
      [(''Item Code'', Numeric 8)],
      [(''Item Code'', Numeric 9), (''Description'', Absent)]] \<and>
   list_all (\<lambda>g. readable (field g ''LONG DESCRIPTION''))
     [[(''SN'', Numeric 1), (''LONG DESCRIPTION'', Text ''cotton gauze roll'')]] \<and>
   (\<exists>res. matchDescriptions
      [[(''Item Code'', Numeric 7), (''Description'', Text ''Cotton Gauze'')],
       [(''Item Code'', Numeric 8)],
       [(''Item Code'', Numeric 9), (''Description'', Absent)]]
      [[(''SN'', Numeric 1), (''LONG DESCRIPTION'', Text ''cotton gauze roll'')]] 50 10 = Inr res) \<and>
   (\<exists>out. matchDescriptionsAsync
      [[(''Item Code'', Numeric 7), (''Description'', Text ''Cotton Gauze'')],
       [(''Item Code'', Numeric 8)],
       [(''Item Code'', Numeric 9), (''Description'', Absent)]]
      [[(''SN'', Numeric 1), (''LONG DESCRIPTION'', Text ''cotton gauze roll'')]] 50 10 = Inr out)"
  (is "?l \<and> ?r \<and> ?sync \<and> ?async")
proof -
  have l: ?l by code_simp
  have r: ?r by code_simp
  from readable_descriptions_never_raise [OF l [unfolded list_all_iff] r [unfolded list_all_iff], of 50 10]
  have "?sync \<and> ?async" .
  with l r show ?thesis by blast
qed

text \<open>
  C3 as stated fails: a row whose description field holds the number 123 is truthy,
  reaches \<^verbatim>\<open>str.toLowerCase()\<close> in \<^verbatim>\<open>normalizeString\<close>, and both entry points throw.
\<close>

theorem numeric_description_raises:
  "matchDescriptions [[(''Description'', Numeric 123)]]
     [[(''LONG DESCRIPTION'', Text ''abc'')]] 0 1000 = Inl TypeError \<and>
   matchDescriptionsAsync [[(''Description'', Numeric 123)]]
     [[(''LONG DESCRIPTION'', Text ''abc'')]] 0 1000 = Inl TypeError"
  (is "?a \<and> ?b")
proof -
  have a: ?a by code_simp
  have b: ?b by code_simp
  from a b show ?thesis ..
qed

section \<open>Rows without a usable description\<close>

lemma calculateSimilarity_nonzero:
  "calculateSimilarity d1 d2 = Inr p \<Longrightarrow> p \<noteq> 0 \<Longrightarrow>
   normalizeValue d1 \<noteq> Inr [] \<and> normalizeValue d2 \<noteq> Inr []"
  by (auto simp: calculateSimilarity_def split: sum.splits if_splits)

lemma falsy_blank: "\<not> truthy v \<Longrightarrow> blank v"
  by (simp add: blank_def normalizeValue_orEmpty normalizeValue_falsy)

text \<open>
  C8, as the code has it. No result of \<open>matchDescriptionsAsync\<close> has a row whose
  description is blank (missing, empty, whitespace only, or with an empty normal form),
  for every threshold. No result of \<open>matchDescriptions\<close> has a row whose description is
  missing or empty, for every threshold; and when the threshold is positive, none has a
  row whose description is blank.
\<close>

theorem blank_rows_excluded:
  "(matchDescriptionsAsync l r t k = Inr (ps, res) \<longrightarrow>
      (\<forall>m\<in>set res. \<not> blank (field (itemMasterRow m) ''Description'') \<and>
                     \<not> blank (field (genConsumableRow m) ''LONG DESCRIPTION''))) \<and>
   (matchDescriptions l r t k = Inr res' \<longrightarrow>
      (\<forall>m\<in>set res'. truthy (field (itemMasterRow m) ''Description'') \<and>
                      truthy (field (genConsumableRow m) ''LONG DESCRIPTION'')) \<and>
      (0 < t \<longrightarrow>
        (\<forall>m\<in>set res'. \<not> blank (field (itemMasterRow m) ''Description'') \<and>
                        \<not> blank (field (genConsumableRow m) ''LONG DESCRIPTION''))))"
proof (intro conjI impI ballI)
  fix m
  assume run: "matchDescriptionsAsync l r t k = Inr (ps, res)" and m: "m \<in> set res"
  from run obtain ms where ms: "sweepAsync l r t k = Inr (ps, ms)" and "res = rankMatches k ms"
    by (auto simp: matchDescriptionsAsync_def split: sum.splits prod.splits)
  with m set_rankMatches [of k ms] have "m \<in> set ms" by auto
  from sweepAsync_mem [OF ms this] obtain items gens item g where
    pre: "preprocess ''Description'' l = Inr items" "preprocess ''LONG DESCRIPTION'' r = Inr gens"
         "item \<in> set items" "g \<in> set gens" and
    rows: "itemMasterRow m = row item" "genConsumableRow m = row g"
    by force
  from entry_pair_scored [OF pre] rows
  show "\<not> blank (field (itemMasterRow m) ''Description'')"
    and "\<not> blank (field (genConsumableRow m) ''LONG DESCRIPTION'')"
    by (auto simp: blank_def normalizeValue_orEmpty)
next
  fix m
  assume run: "matchDescriptions l r t k = Inr res'" and m: "m \<in> set res'"
  from run obtain ms where ms: "scanItemRows t l r = Inr ms" and "res' = rankMatches k ms"
    by (auto simp: matchDescriptions_def split: sum.splits)
  with m set_rankMatches [of k ms] have "m \<in> set ms" by auto
  then show "truthy (field (itemMasterRow m) ''Description'')"
    and "truthy (field (genConsumableRow m) ''LONG DESCRIPTION'')"
    unfolding scanItemRows_mem [OF ms] by auto
next
  fix m
  assume run: "matchDescriptions l r t k = Inr res'" and t: "0 < t" and m: "m \<in> set res'"
  from run obtain ms where ms: "scanItemRows t l r = Inr ms" and "res' = rankMatches k ms"
    by (auto simp: matchDescriptions_def split: sum.splits)
  with m set_rankMatches [of k ms] have "m \<in> set ms" by auto
  then obtain p where
    p: "calculateSimilarity (orEmpty (field (itemMasterRow m) ''Description''))
          (orEmpty (field (genConsumableRow m) ''LONG DESCRIPTION'')) = Inr p" and "t \<le> p"
    unfolding scanItemRows_mem [OF ms] by auto
  with t have "p \<noteq> 0" by simp
  from calculateSimilarity_nonzero [OF p this]
  show "\<not> blank (field (itemMasterRow m) ''Description'')"
    and "\<not> blank (field (genConsumableRow m) ''LONG DESCRIPTION'')"
    by (simp_all add: blank_def)
qed


theorem blank_rows_excluded_witness:
  "matchDescriptionsAsync
     [[(''Description'', Text ''!!!'')], [(''Description'', Text ''abc def'')], [(''Item Code'', Numeric 1)]]
     [[(''LONG DESCRIPTION'', Text ''   '')], [(''LONG DESCRIPTION'', Text ''abc def'')]] 50 10
   = Inr ([Percent 100],
       [\<lparr>itemMasterRow = [(''Description'', Text ''abc def'')],
        genConsumableRow = [(''LONG DESCRIPTION'', Text ''abc def'')],
        matchPercentage = 100, itemMasterDescription = Text ''abc def'',
        genConsumableDescription = Text ''abc def''\<rparr>]) \<and>
   matchDescriptions
     [[(''Description'', Text ''!!!'')], [(''Description'', Text ''abc def'')], [(''Item Code'', Numeric 1)]]
     [[(''LONG DESCRIPTION'', Text ''   '')], [(''LONG DESCRIPTION'', Text ''abc def'')]] 50 10
   = Inr [\<lparr>itemMasterRow = [(''Description'', Text ''abc def'')],
        genConsumableRow = [(''LONG DESCRIPTION'', Text ''abc def'')],
        matchPercentage = 100, itemMasterDescription = Text ''abc def'',
        genConsumableDescription = Text ''abc def''\<rparr>] \<and>
   blank (field [(''Description'', Text ''!!!'')] ''Description'') \<and>
   blank (field [(''Item Code'', Numeric 1)] ''Description'') \<and>
   blank (field [(''LONG DESCRIPTION'', Text ''   '')] ''LONG DESCRIPTION'') \<and>
   \<not> blank (field [(''Description'', Text ''abc def'')] ''Description'') \<and>
   \<not> blank (field [(''LONG DESCRIPTION'', Text ''abc def'')] ''LONG DESCRIPTION'')"
  (is "?async = Inr (?ps, [?m]) \<and> ?sync = Inr [?m] \<and> ?b1 \<and> ?b2 \<and> ?b3 \<and> ?n1 \<and> ?n2")
proof -
  have async: "?async = Inr (?ps, [?m])" by code_simp
  have sync: "?sync = Inr [?m]" by code_simp
  have b1: ?b1 by code_simp
  have b2: ?b2 by code_simp
  have b3: ?b3 by code_simp
  have t: "(0 :: rat) < 50" by simp
  from blank_rows_excluded
         [of "[[(''Description'', Text ''!!!'')], [(''Description'', Text ''abc def'')], [(''Item Code'', Numeric 1)]]"
             "[[(''LONG DESCRIPTION'', Text ''   '')], [(''LONG DESCRIPTION'', Text ''abc def'')]]"
             50 10 ?ps "[?m]" "[?m]"]
       async sync t
  have "?n1 \<and> ?n2" by simp
  with async sync b1 b2 b3 show ?thesis by blast
qed

text \<open>
  C8 as stated fails for \<open>matchDescriptions\<close> at threshold 0: a description of punctuation
  only, or of whitespace only, is truthy, so the row is not skipped; it scores 0, and
  \<open>0 \<ge> 0\<close> collects the pair.
\<close>

theorem blank_row_matched_at_threshold_zero:
  "blank (field [(''Description'', Text ''!!!'')] ''Description'') \<and>
   matchDescriptions [[(''Description'', Text ''!!!'')]]
     [[(''LONG DESCRIPTION'', Text ''abc'')]] 0 1000
   = Inr [\<lparr>itemMasterRow = [(''Description'', Text ''!!!'')],
        genConsumableRow = [(''LONG DESCRIPTION'', Text ''abc'')],
        matchPercentage = 0, itemMasterDescription = Text ''!!!'',
        genConsumableDescription = Text ''abc''\<rparr>] \<and>
   blank (field [(''LONG DESCRIPTION'', Text ''   '')] ''LONG DESCRIPTION'') \<and>
   matchDescriptions [[(''Description'', Text ''abc'')]]
     [[(''LONG DESCRIPTION'', Text ''   '')]] 0 1000
   = Inr [\<lparr>itemMasterRow = [(''Description'', Text ''abc'')],
        genConsumableRow = [(''LONG DESCRIPTION'', Text ''   '')],
        matchPercentage = 0, itemMasterDescription = Text ''abc'',
        genConsumableDescription = Text ''   ''\<rparr>]"
  (is "?a \<and> ?b \<and> ?c \<and> ?d")
proof -
  have a: ?a by code_simp
  have b: ?b by code_simp
  have c: ?c by code_simp
  have d: ?d by code_simp
  from a b c d show ?thesis by blast
qed


section \<open>Progress reports\<close>
















section \<open>The score as Dice's coefficient\<close>

lemma intersectionSize_mset: "intersectionSize xs ys = size (mset xs \<inter># mset ys)"
proof (induction xs arbitrary: ys)
  case Nil
  show ?case by simp
next
  case (Cons x xs)
  show ?case
  proof (cases "x \<in> set ys")
    case True
    then have "mset (x # xs) \<inter># mset ys = add_mset x (mset xs \<inter># mset (remove1 x ys))"
      by (simp add: inter_add_left2)
    with True Cons [of "remove1 x ys"] show ?thesis by simp
  next
    case False
    then have "mset (x # xs) \<inter># mset ys = mset xs \<inter># mset ys"
      by (simp add: inter_add_left1)
    with False Cons [of ys] show ?thesis by simp
  qed
qed

lemma bigrams_nth:
  "bigrams s = map (\<lambda>i. (s ! i, s ! Suc i)) [0..<length s - 1]"
proof (induction s rule: bigrams.induct)
  case (1 a b cs)
  have "[0..<length (a # b # cs) - 1] = 0 # map Suc [0..<length (b # cs) - 1]"
    by (simp add: upt_conv_Cons map_Suc_upt del: upt_Suc)
  with 1 show ?case by (simp add: comp_def del: upt_Suc)
qed simp_all

text \<open>
  C4. The bigrams of a string are its overlapping two-character substrings. On two
  normal forms of at least two characters the scorer is Dice's coefficient of their
  bigram multisets; when one of them is shorter it is 1 if the two are equal and 0
  otherwise. \<open>calculateSimilarity\<close> normalizes both strings, gives 0 when a normal form is
  empty, and otherwise gives that score as a percentage with two decimals.
\<close>

theorem similarity_is_dice:
  "bigrams a = map (\<lambda>i. (a ! i, a ! Suc i)) [0..<length a - 1] \<and>
   compareTwoStrings a b =
     (if length a < 2 \<or> length b < 2 then (if a = b then 1 else 0) else diceCoefficient a b) \<and>
   calculateSimilarity (Text s1) (Text s2) =
     Inr (if normalizeString s1 = [] \<or> normalizeString s2 = [] then 0
          else of_int (mathRound
                 ((if length (normalizeString s1) < 2 \<or> length (normalizeString s2) < 2
                   then (if normalizeString s1 = normalizeString s2 then 1 else 0)
                   else diceCoefficient (normalizeString s1) (normalizeString s2))
                  * 10000)) / 100)"
proof (intro conjI)
  show "bigrams a = map (\<lambda>i. (a ! i, a ! Suc i)) [0..<length a - 1]"
    by (rule bigrams_nth)
next
  show cts: "compareTwoStrings a b =
     (if length a < 2 \<or> length b < 2 then (if a = b then 1 else 0) else diceCoefficient a b)"
    for a b
    by (simp add: compareTwoStrings_def diceCoefficient_def intersectionSize_mset)
  show "calculateSimilarity (Text s1) (Text s2) =
     Inr (if normalizeString s1 = [] \<or> normalizeString s2 = [] then 0
          else of_int (mathRound
                 ((if length (normalizeString s1) < 2 \<or> length (normalizeString s2) < 2
                   then (if normalizeString s1 = normalizeString s2 then 1 else 0)
                   else diceCoefficient (normalizeString s1) (normalizeString s2))
                  * 10000)) / 100)"
    unfolding cts [symmetric] by (simp add: calculateSimilarity_def)
qed

theorem similarity_is_dice_witness:
  "normalizeString ''Night!'' = ''night'' \<and>
   compareTwoStrings ''night'' ''nacht'' = 1 / 4 \<and>
   diceCoefficient ''night'' ''nacht'' = 1 / 4 \<and>
   calculateSimilarity (Text ''Night!'') (Text ''nacht'') = Inr 25"
  (is "?n \<and> ?c \<and> ?d \<and> ?s")
proof -
  have n: ?n by code_simp
  have n': "normalizeString ''nacht'' = ''nacht''" by code_simp
  have c: ?c by code_simp
  have r: "rat_of_int (mathRound (1 / 4 * 10000)) / 100 = 25" by code_simp
  note inst = similarity_is_dice [of "''night''" "''nacht''" "''Night!''" "''nacht''",
                unfolded n n']
  from inst c have d: ?d by simp
  from inst d r have s: ?s by simp
  from n c d s show ?thesis by blast
qed


end
